theory Spec2Isabelle
  imports Complex_Main
begin

section \<open>TargetHazardWorld: a shallow embedding\<close>

text \<open>
  The environment of \<^verbatim>\<open>envs/target_hazard_world.py\<close>: three point masses (agent,
  target, hazard) in a bounded plane. Numbers are modelled as \<open>real\<close>: the arithmetic
  is the exact one, not IEEE-754 rounding, and there is no NaN or infinity. A numpy
  array of shape \<open>(2,)\<close> is a pair of reals.
\<close>

subsection \<open>Vectors and the numpy operations the code uses\<close>

type_synonym vec2 = "real \<times> real"

text \<open>\<^verbatim>\<open>np.clip(x, lo, hi)\<close> is \<^verbatim>\<open>minimum(maximum(x, lo), hi)\<close>, also when \<open>lo > hi\<close>.\<close>

definition clip :: "real \<Rightarrow> real \<Rightarrow> real \<Rightarrow> real" where
  "clip x lo hi = min (max x lo) hi"

definition vclip :: "vec2 \<Rightarrow> real \<Rightarrow> real \<Rightarrow> vec2" where
  "vclip v lo hi = (clip (fst v) lo hi, clip (snd v) lo hi)"

definition vadd :: "vec2 \<Rightarrow> vec2 \<Rightarrow> vec2" where
  "vadd u v = (fst u + fst v, snd u + snd v)"

definition vsub :: "vec2 \<Rightarrow> vec2 \<Rightarrow> vec2" where
  "vsub u v = (fst u - fst v, snd u - snd v)"

definition vscale :: "vec2 \<Rightarrow> real \<Rightarrow> vec2" where
  "vscale v c = (fst v * c, snd v * c)"

definition zeros :: vec2 where
  "zeros = (0, 0)"

text \<open>\<^verbatim>\<open>np.linalg.norm\<close> of a vector: the Euclidean norm.\<close>

definition linalg_norm :: "vec2 \<Rightarrow> real" where
  "linalg_norm v = sqrt ((fst v)\<^sup>2 + (snd v)\<^sup>2)"

subsection \<open>The random source\<close>

text \<open>
  \<^verbatim>\<open>self.np_random\<close> is a numpy generator owned by the gymnasium base class; neither
  library is part of the repository. The generator is a parameter of the model: a type
  \<open>'g\<close> of generator states, \<open>from_seed\<close> for \<^verbatim>\<open>seeding.np_random(seed)\<close> and
  \<open>uniform g lo hi\<close> for \<^verbatim>\<open>g.uniform(lo, hi, size=2)\<close>, which returns the drawn vector
  and the advanced generator. gymnasium accepts non-negative integer seeds only.
\<close>

record 'g rng =
  from_seed :: "nat \<Rightarrow> 'g"
  uniform :: "'g \<Rightarrow> real \<Rightarrow> real \<Rightarrow> vec2 \<times> 'g"

subsection \<open>pygame\<close>

text \<open>
  pygame is external too. Its drawing, blitting and event calls are taken to succeed and
  their pixels are not modelled; what is kept is the state \<^verbatim>\<open>close\<close> acts on: whether
  the package and its display module are initialised, and the display surface.
\<close>

record pygame =
  initialised :: bool
  display_initialised :: bool
  display_surface :: "(nat \<times> nat) option"

definition pygame_init :: "pygame \<Rightarrow> pygame" where
  "pygame_init pg = pg\<lparr>initialised := True, display_initialised := True\<rparr>"

definition pygame_display_init :: "pygame \<Rightarrow> pygame" where
  "pygame_display_init pg = pg\<lparr>display_initialised := True\<rparr>"

definition pygame_display_set_mode :: "nat \<times> nat \<Rightarrow> pygame \<Rightarrow> pygame" where
  "pygame_display_set_mode sz pg = pg\<lparr>display_surface := Some sz\<rparr>"

definition pygame_display_quit :: "pygame \<Rightarrow> pygame" where
  "pygame_display_quit pg = pg\<lparr>display_initialised := False, display_surface := None\<rparr>"

definition pygame_quit :: "pygame \<Rightarrow> pygame" where
  "pygame_quit pg =
     pg\<lparr>initialised := False, display_initialised := False, display_surface := None\<rparr>"

subsection \<open>The environment object\<close>

datatype error = AssertionError | AttributeError

text \<open>
  The six body attributes are assigned together, and only by \<^verbatim>\<open>reset\<close>: before the
  first reset they do not exist and reading one raises \<^verbatim>\<open>AttributeError\<close>. They are
  the record \<open>world\<close>, held as an option.
\<close>

record world =
  agent_location :: vec2
  agent_velocity :: vec2
  target_location :: vec2
  target_velocity :: vec2
  hazard_location :: vec2
  hazard_velocity :: vec2

type_synonym observation = "vec2 \<times> vec2 \<times> vec2 \<times> vec2 \<times> vec2 \<times> vec2"

record info =
  target_distance :: real
  hazard_distance :: real

type_synonym box = "real \<times> real"

record 'g env =
  window_size :: nat
  location_precision :: real
  max_absolute_location :: real
  max_absolute_velocity :: real
  max_absolute_acceleration :: real
  observation_space :: "box list"
  action_space :: "box list"
  render_mode :: "string option"
  window :: "(nat \<times> nat) option"
  clock :: "unit option"
  show_observation_traces :: bool
  np_random :: "'g option"
  world :: "world option"
  observations :: "observation list"
  pygame :: pygame

definition metadata_render_modes :: "string list" where
  "metadata_render_modes = [''human'', ''rgb_array'']"

definition metadata_render_fps :: nat where
  "metadata_render_fps = 24"

text \<open>
  \<^verbatim>\<open>__init__\<close>. A \<^verbatim>\<open>spaces.Box\<close> is kept as its pair of bounds. The process's pygame
  state is left as found (first argument). The arguments follow in the source's order.
\<close>

definition init ::
  "pygame \<Rightarrow> string option \<Rightarrow> nat \<Rightarrow> real \<Rightarrow> real \<Rightarrow> real \<Rightarrow> real \<Rightarrow> bool \<Rightarrow> error + 'g env" where
  "init pg rm ws lp mal mav maa traces =
     (if (case rm of None \<Rightarrow> True | Some m \<Rightarrow> m \<in> set metadata_render_modes)
      then Inr \<lparr>window_size = ws,
                location_precision = lp,
                max_absolute_location = mal,
                max_absolute_velocity = mav,
                max_absolute_acceleration = maa,
                observation_space =
                  [(- mal, mal), (- mav, mav), (- mal, mal), (- mav, mav), (- mal, mal), (- mav, mav)],
                action_space = [(- maa, maa), (- maa, maa), (- maa, maa)],
                render_mode = rm,
                window = None,
                clock = None,
                show_observation_traces = traces,
                np_random = None,
                world = None,
                observations = [],
                pygame = pg\<rparr>
      else Inl AssertionError)"

definition get_obs :: "world \<Rightarrow> observation" where
  "get_obs w =
     (agent_location w, agent_velocity w,
      target_location w, target_velocity w,
      hazard_location w, hazard_velocity w)"

definition get_info :: "world \<Rightarrow> info" where
  "get_info w =
     \<lparr>target_distance = linalg_norm (vsub (agent_location w) (target_location w)),
      hazard_distance = linalg_norm (vsub (agent_location w) (hazard_location w))\<rparr>"

subsection \<open>Rendering\<close>

text \<open>
  \<^verbatim>\<open>_render_frame\<close>: the window and the clock are created on the first human-mode call,
  the current observation is appended to the trace when traces are shown, and the frame
  is returned in every mode but human. The frame is kept as its shape
  \<open>(window_size, window_size, 3)\<close>. Drawing reads the body attributes.
\<close>

definition render_frame :: "'g env \<Rightarrow> error + ((nat \<times> nat \<times> nat) option \<times> 'g env)" where
  "render_frame env0 =
     (let human = (render_mode env0 = Some ''human'');
          ws = window_size env0;
          env1 = (if window env0 = None \<and> human
                  then env0\<lparr>window := Some (ws, ws),
                            pygame := pygame_display_set_mode (ws, ws)
                                        (pygame_display_init (pygame_init (pygame env0)))\<rparr>
                  else env0);
          env2 = (if clock env1 = None \<and> human then env1\<lparr>clock := Some ()\<rparr> else env1)
      in case world env2 of
           None \<Rightarrow> Inl AttributeError
         | Some w \<Rightarrow>
             (let env3 = (if show_observation_traces env2
                          then env2\<lparr>observations := observations env2 @ [get_obs w]\<rparr>
                          else env2)
              in if human then Inr (None, env3) else Inr (Some (ws, ws, 3), env3)))"

definition render :: "'g env \<Rightarrow> error + ((nat \<times> nat \<times> nat) option \<times> 'g env)" where
  "render env =
     (if render_mode env = Some ''rgb_array'' then render_frame env else Inr (None, env))"

definition close :: "'g env \<Rightarrow> 'g env" where
  "close env =
     (if window env \<noteq> None
      then env\<lparr>pygame := pygame_quit (pygame_display_quit (pygame env))\<rparr>
      else env)"

subsection \<open>reset\<close>

text \<open>
  \<^verbatim>\<open>super().reset(seed=seed)\<close> replaces the generator when a seed is given. The
  \<^verbatim>\<open>np_random\<close> property creates a generator from operating-system entropy when there
  is none yet; \<open>entropy\<close> is the generator it would create.
\<close>

definition super_reset :: "'g rng \<Rightarrow> nat option \<Rightarrow> 'g env \<Rightarrow> 'g env" where
  "super_reset R seed env =
     (case seed of None \<Rightarrow> env | Some s \<Rightarrow> env\<lparr>np_random := Some (from_seed R s)\<rparr>)"

definition np_random_uniform :: "'g rng \<Rightarrow> 'g \<Rightarrow> 'g env \<Rightarrow> vec2 \<times> 'g env" where
  "np_random_uniform R entropy env =
     (let g = (case np_random env of None \<Rightarrow> entropy | Some g \<Rightarrow> g);
          d = uniform R g (- max_absolute_location env) (max_absolute_location env)
      in (fst d, env\<lparr>np_random := Some (snd d)\<rparr>))"

text \<open>\<^verbatim>\<open>if options is not None: x = options.get(key, x)\<close>.\<close>

definition options_get :: "(string \<rightharpoonup> vec2) option \<Rightarrow> string \<Rightarrow> vec2 \<Rightarrow> vec2" where
  "options_get options key x =
     (case options of
        None \<Rightarrow> x
      | Some d \<Rightarrow> (case d key of None \<Rightarrow> x | Some v \<Rightarrow> v))"

definition reset ::
  "'g rng \<Rightarrow> 'g \<Rightarrow> nat option \<Rightarrow> (string \<rightharpoonup> vec2) option \<Rightarrow> 'g env
     \<Rightarrow> error + ((observation \<times> info) \<times> 'g env)" where
  "reset R entropy seed options env0 =
     (let env1 = super_reset R seed env0;
          d_agent = np_random_uniform R entropy env1;
          agent_loc = options_get options ''agent_location'' (fst d_agent);
          d_target = np_random_uniform R entropy (snd d_agent);
          target_loc = options_get options ''target_location'' (fst d_target);
          d_hazard = np_random_uniform R entropy (snd d_target);
          hazard_loc = options_get options ''hazard_location'' (fst d_hazard);
          w = \<lparr>agent_location = agent_loc, agent_velocity = zeros,
               target_location = target_loc, target_velocity = zeros,
               hazard_location = hazard_loc, hazard_velocity = zeros\<rparr>;
          env2 = (snd d_hazard)\<lparr>world := Some w\<rparr>;
          env3 = (if show_observation_traces env2 then env2\<lparr>observations := []\<rparr> else env2)
      in case (if render_mode env3 = Some ''human''
               then map_sum id snd (render_frame env3) else Inr env3) of
           Inl e \<Rightarrow> Inl e
         | Inr env4 \<Rightarrow> Inr ((get_obs w, get_info w), env4))"

subsection \<open>step\<close>

text \<open>\<^verbatim>\<open>_step\<close>, the integrator of one body.\<close>

definition step_body :: "'g env \<Rightarrow> vec2 \<Rightarrow> vec2 \<Rightarrow> vec2 \<Rightarrow> real \<Rightarrow> vec2 \<times> vec2" where
  "step_body env location velocity accelaretion dt =
     (let accelaretion1 = vclip accelaretion
            (- max_absolute_acceleration env) (max_absolute_acceleration env);
          velocity1 = vadd velocity (vscale accelaretion1 dt);
          velocity2 = vclip velocity1 (- max_absolute_velocity env) (max_absolute_velocity env);
          location1 = vadd location (vscale velocity2 dt);
          location2 = vclip location1 (- max_absolute_location env) (max_absolute_location env)
      in (location2, velocity2))"

type_synonym action = "vec2 \<times> vec2 \<times> vec2"

record transition =
  observation :: observation
  reward :: real
  terminated :: bool
  truncated :: bool
  step_info :: info

definition step :: "'g env \<Rightarrow> action \<Rightarrow> error + (transition \<times> 'g env)" where
  "step env0 action =
     (case world env0 of
        None \<Rightarrow> Inl AttributeError
      | Some w0 \<Rightarrow>
          (let dt = 1 / real metadata_render_fps;
               a = step_body env0 (agent_location w0) (agent_velocity w0) (fst action) dt;
               t = step_body env0 (target_location w0) (target_velocity w0) (fst (snd action)) dt;
               h = step_body env0 (hazard_location w0) (hazard_velocity w0) (snd (snd action)) dt;
               w = \<lparr>agent_location = fst a, agent_velocity = snd a,
                    target_location = fst t, target_velocity = snd t,
                    hazard_location = fst h, hazard_velocity = snd h\<rparr>;
               env1 = env0\<lparr>world := Some w\<rparr>;
               term = (linalg_norm (vsub (agent_location w) (target_location w))
                         < location_precision env1);
               rew = - dt
           in case (if render_mode env1 = Some ''human''
                    then map_sum id snd (render_frame env1) else Inr env1) of
                Inl e \<Rightarrow> Inl e
              | Inr env2 \<Rightarrow>
                  Inr (\<lparr>observation = get_obs w, reward = rew, terminated = term,
                        truncated = False, step_info = get_info w\<rparr>, env2)))"

subsection \<open>Episodes\<close>

text \<open>
  The caller's loop, which the repository leaves to its user: one \<^verbatim>\<open>reset\<close>, then one
  \<^verbatim>\<open>step\<close> per action, stopping at the first exception. \<open>episode\<close> returns what the
  caller sees: the pair returned by reset and the tuple returned by each step.
\<close>

fun steps :: "'g env \<Rightarrow> action list \<Rightarrow> error + (transition list \<times> 'g env)" where
  "steps env [] = Inr ([], env)"
| "steps env (a # as) =
     (case step env a of
        Inl e \<Rightarrow> Inl e
      | Inr (t, env1) \<Rightarrow>
          (case steps env1 as of
             Inl e \<Rightarrow> Inl e
           | Inr (ts, env2) \<Rightarrow> Inr (t # ts, env2)))"

definition episode ::
  "'g rng \<Rightarrow> 'g \<Rightarrow> nat option \<Rightarrow> (string \<rightharpoonup> vec2) option \<Rightarrow> 'g env \<Rightarrow> action list
     \<Rightarrow> error + ((observation \<times> info) \<times> transition list)" where
  "episode R entropy seed options env as =
     (case reset R entropy seed options env of
        Inl e \<Rightarrow> Inl e
      | Inr (r, env1) \<Rightarrow>
          (case steps env1 as of
             Inl e \<Rightarrow> Inl e
           | Inr (ts, env2) \<Rightarrow> Inr (r, ts)))"

subsection \<open>Reading what is returned\<close>

text \<open>The components of an observation, and projections of what an episode returns.\<close>

definition obs_agent_location :: "observation \<Rightarrow> vec2" where
  "obs_agent_location ob = fst ob"

definition obs_agent_velocity :: "observation \<Rightarrow> vec2" where
  "obs_agent_velocity ob = fst (snd ob)"

definition obs_target_location :: "observation \<Rightarrow> vec2" where
  "obs_target_location ob = fst (snd (snd ob))"

definition obs_target_velocity :: "observation \<Rightarrow> vec2" where
  "obs_target_velocity ob = fst (snd (snd (snd ob)))"

definition obs_hazard_location :: "observation \<Rightarrow> vec2" where
  "obs_hazard_location ob = fst (snd (snd (snd (snd ob))))"

definition obs_hazard_velocity :: "observation \<Rightarrow> vec2" where
  "obs_hazard_velocity ob = snd (snd (snd (snd (snd ob))))"

definition initial_observation ::
  "error + ((observation \<times> info) \<times> transition list) \<Rightarrow> observation option" where
  "initial_observation r = (case r of Inl e \<Rightarrow> None | Inr x \<Rightarrow> Some (fst (fst x)))"

definition terminated_flags ::
  "error + ((observation \<times> info) \<times> transition list) \<Rightarrow> bool list option" where
  "terminated_flags r = (case r of Inl e \<Rightarrow> None | Inr x \<Rightarrow> Some (map terminated (snd x)))"

subsection \<open>Predicates of the specification\<close>

text \<open>
  A vector within the box of a bound, an observation within the environment's location
  and velocity bounds, and a configuration as the specification's data model has it
  (positive sizes and bounds).
\<close>

definition in_box :: "real \<Rightarrow> vec2 \<Rightarrow> bool" where
  "in_box b v = (\<bar>fst v\<bar> \<le> b \<and> \<bar>snd v\<bar> \<le> b)"

definition obs_in_bounds :: "'g env \<Rightarrow> observation \<Rightarrow> bool" where
  "obs_in_bounds env ob =
     (case ob of (a_loc, a_vel, t_loc, t_vel, h_loc, h_vel) \<Rightarrow>
        in_box (max_absolute_location env) a_loc \<and> in_box (max_absolute_velocity env) a_vel \<and>
        in_box (max_absolute_location env) t_loc \<and> in_box (max_absolute_velocity env) t_vel \<and>
        in_box (max_absolute_location env) h_loc \<and> in_box (max_absolute_velocity env) h_vel)"

definition valid_config :: "'g env \<Rightarrow> bool" where
  "valid_config env =
     (0 < window_size env \<and> 0 < location_precision env \<and> 0 < max_absolute_location env \<and>
      0 < max_absolute_velocity env \<and> 0 < max_absolute_acceleration env)"

text \<open>Two environments with the same bounds and the same precision.\<close>

definition same_physics :: "'g env \<Rightarrow> 'h env \<Rightarrow> bool" where
  "same_physics e1 e2 =
     (location_precision e1 = location_precision e2 \<and>
      max_absolute_location e1 = max_absolute_location e2 \<and>
      max_absolute_velocity e1 = max_absolute_velocity e2 \<and>
      max_absolute_acceleration e1 = max_absolute_acceleration e2)"

text \<open>
  The position the options supply for a body, if any, and whether it lies in the
  location box. The contract of \<^verbatim>\<open>Generator.uniform\<close>: a draw between \<open>lo \<le> hi\<close>
  lies between them.
\<close>

definition supplied :: "(string \<rightharpoonup> vec2) option \<Rightarrow> string \<Rightarrow> vec2 option" where
  "supplied options key = (case options of None \<Rightarrow> None | Some d \<Rightarrow> d key)"

definition override_in_box :: "'g env \<Rightarrow> (string \<rightharpoonup> vec2) option \<Rightarrow> string \<Rightarrow> bool" where
  "override_in_box env options key =
     (case supplied options key of
        None \<Rightarrow> True
      | Some v \<Rightarrow> in_box (max_absolute_location env) v)"

definition uniform_in_range :: "'g rng \<Rightarrow> bool" where
  "uniform_in_range R =
     (\<forall>g lo hi. lo \<le> hi \<longrightarrow>
        lo \<le> fst (fst (uniform R g lo hi)) \<and> fst (fst (uniform R g lo hi)) \<le> hi \<and>
        lo \<le> snd (fst (uniform R g lo hi)) \<and> snd (fst (uniform R g lo hi)) \<le> hi)"

subsection \<open>The integrator as the specification words it\<close>

text \<open>
  Per axis, with \<open>dt = 1/24\<close>: clip the acceleration, add it to the velocity and clip,
  add the new velocity to the position and clip. Written from the specification, to be
  compared with \<open>step_body\<close>.
\<close>

definition spec_axis :: "real \<Rightarrow> real \<Rightarrow> real \<Rightarrow> real \<Rightarrow> real \<Rightarrow> real \<Rightarrow> real \<times> real" where
  "spec_axis A V L p v a =
     (let a' = clip a (- A) A;
          v' = clip (v + a' * (1 / 24)) (- V) V;
          p' = clip (p + v' * (1 / 24)) (- L) L
      in (p', v'))"

definition spec_advance :: "real \<Rightarrow> real \<Rightarrow> real \<Rightarrow> vec2 \<Rightarrow> vec2 \<Rightarrow> vec2 \<Rightarrow> vec2 \<times> vec2" where
  "spec_advance A V L p v a =
     (let x = spec_axis A V L (fst p) (fst v) (fst a);
          y = spec_axis A V L (snd p) (snd v) (snd a)
      in ((fst x, fst y), (snd x, snd y)))"

subsection \<open>What reset and step leave\<close>

text \<open>
  The generator \<^verbatim>\<open>reset\<close> draws from (the seeded one when a seed is given, else the
  one the environment holds, else a fresh one), and the first, second and third
  \<^verbatim>\<open>uniform(-L, L, size=2)\<close> call on it.
\<close>

definition reset_generator :: "'g rng \<Rightarrow> 'g \<Rightarrow> nat option \<Rightarrow> 'g env \<Rightarrow> 'g" where
  "reset_generator R entropy seed env =
     (case seed of
        Some s \<Rightarrow> from_seed R s
      | None \<Rightarrow> (case np_random env of None \<Rightarrow> entropy | Some g \<Rightarrow> g))"

definition draw1 :: "'g rng \<Rightarrow> 'g \<Rightarrow> real \<Rightarrow> vec2 \<times> 'g" where
  "draw1 R g L = uniform R g (- L) L"

definition draw2 :: "'g rng \<Rightarrow> 'g \<Rightarrow> real \<Rightarrow> vec2 \<times> 'g" where
  "draw2 R g L = uniform R (snd (draw1 R g L)) (- L) L"

definition draw3 :: "'g rng \<Rightarrow> 'g \<Rightarrow> real \<Rightarrow> vec2 \<times> 'g" where
  "draw3 R g L = uniform R (snd (draw2 R g L)) (- L) L"

text \<open>
  The body attributes as \<^verbatim>\<open>reset\<close> and as \<^verbatim>\<open>step\<close> leave them: abbreviations
  for the proofs, shown below to be what the two functions compute.
\<close>

definition reset_world ::
  "'g rng \<Rightarrow> 'g \<Rightarrow> nat option \<Rightarrow> (string \<rightharpoonup> vec2) option \<Rightarrow> 'g env \<Rightarrow> world" where
  "reset_world R entropy seed options env =
     \<lparr>agent_location = options_get options ''agent_location''
        (fst (draw1 R (reset_generator R entropy seed env) (max_absolute_location env))),
      agent_velocity = zeros,
      target_location = options_get options ''target_location''
        (fst (draw2 R (reset_generator R entropy seed env) (max_absolute_location env))),
      target_velocity = zeros,
      hazard_location = options_get options ''hazard_location''
        (fst (draw3 R (reset_generator R entropy seed env) (max_absolute_location env))),
      hazard_velocity = zeros\<rparr>"

definition stepped_world :: "'g env \<Rightarrow> world \<Rightarrow> action \<Rightarrow> world" where
  "stepped_world env w action =
     \<lparr>agent_location = fst (step_body env (agent_location w) (agent_velocity w) (fst action) (1 / 24)),
      agent_velocity = snd (step_body env (agent_location w) (agent_velocity w) (fst action) (1 / 24)),
      target_location = fst (step_body env (target_location w) (target_velocity w) (fst (snd action)) (1 / 24)),
      target_velocity = snd (step_body env (target_location w) (target_velocity w) (fst (snd action)) (1 / 24)),
      hazard_location = fst (step_body env (hazard_location w) (hazard_velocity w) (snd (snd action)) (1 / 24)),
      hazard_velocity = snd (step_body env (hazard_location w) (hazard_velocity w) (snd (snd action)) (1 / 24))\<rparr>"

subsection \<open>Concrete instances\<close>

text \<open>
  The environment built by the constructor's default arguments in a process where pygame
  is not initialised; the world of the specification's example (agent at the origin,
  target at distance \<open>0.005\<close>); and the same with the target at distance \<open>1/2\<close>.
\<close>

definition pygame0 :: pygame where
  "pygame0 = \<lparr>initialised = False, display_initialised = False, display_surface = None\<rparr>"

definition default_env :: "nat env" where
  "default_env =
     \<lparr>window_size = 500, location_precision = 1 / 100, max_absolute_location = 1,
      max_absolute_velocity = 1, max_absolute_acceleration = 1,
      observation_space = [(- 1, 1), (- 1, 1), (- 1, 1), (- 1, 1), (- 1, 1), (- 1, 1)],
      action_space = [(- 1, 1), (- 1, 1), (- 1, 1)],
      render_mode = None, window = None, clock = None, show_observation_traces = False,
      np_random = None, world = None, observations = [], pygame = pygame0\<rparr>"

definition example_world :: world where
  "example_world =
     \<lparr>agent_location = (0, 0), agent_velocity = (0, 0),
      target_location = (0, 1 / 200), target_velocity = (0, 0),
      hazard_location = (1, 1), hazard_velocity = (0, 0)\<rparr>"

definition example_env :: "nat env" where
  "example_env = default_env\<lparr>world := Some example_world\<rparr>"

definition far_world :: world where
  "far_world =
     \<lparr>agent_location = (0, 0), agent_velocity = (0, 0),
      target_location = (0, 1 / 2), target_velocity = (0, 0),
      hazard_location = (1, 1), hazard_velocity = (0, 0)\<rparr>"

definition far_env :: "nat env" where
  "far_env = default_env\<lparr>world := Some far_world\<rparr>"

definition zero_action :: action where
  "zero_action = ((0, 0), (0, 0), (0, 0))"

text \<open>
  The example in human mode, and what its first rendered frame leaves: a window, a
  clock and an initialised display.
\<close>

definition human_env :: "nat env" where
  "human_env = example_env\<lparr>render_mode := Some ''human''\<rparr>"

definition opened_env :: "nat env" where
  "opened_env =
     human_env\<lparr>window := Some (500, 500), clock := Some (),
               pygame := \<lparr>initialised = True, display_initialised = True,
                           display_surface = Some (500, 500)\<rparr>\<rparr>"

text \<open>
  A small generator to run the model on: the state is a number, a draw places the two
  coordinates at eighths of the interval, and the seed is the initial state.
\<close>

definition sample_uniform :: "nat \<Rightarrow> real \<Rightarrow> real \<Rightarrow> vec2 \<times> nat" where
  "sample_uniform g lo hi =
     ((lo + (hi - lo) * (real (g mod 8) / 8), lo + (hi - lo) * (real ((3 * g + 1) mod 8) / 8)),
      5 * g + 3)"

definition sample_rng :: "nat rng" where
  "sample_rng = \<lparr>from_seed = (\<lambda>s. s), uniform = sample_uniform\<rparr>"

section \<open>Properties\<close>

subsection \<open>Auxiliary facts\<close>

lemma step_body_cong:
  "same_physics e1 e2 \<Longrightarrow> step_body e1 p v a dt = step_body e2 p v a dt"
  by (simp add: step_body_def same_physics_def)

lemma stepped_world_cong:
  "same_physics e1 e2 \<Longrightarrow> stepped_world e1 w a = stepped_world e2 w a"
  by (simp add: stepped_world_def step_body_cong)

lemma render_frame_Some:
  "world env = Some w \<Longrightarrow>
     \<exists>f env'. render_frame env = Inr (f, env') \<and> world env' = Some w \<and> same_physics env' env
       \<and> np_random env' = np_random env"
  by (simp add: render_frame_def Let_def same_physics_def)

lemma step_Some:
  assumes "world env = Some w"
  shows "\<exists>env'. step env a =
           Inr (\<lparr>observation = get_obs (stepped_world env w a), reward = - (1 / 24),
                 terminated = (linalg_norm (vsub (agent_location (stepped_world env w a))
                                 (target_location (stepped_world env w a))) < location_precision env),
                 truncated = False, step_info = get_info (stepped_world env w a)\<rparr>, env')
         \<and> world env' = Some (stepped_world env w a) \<and> same_physics env' env
         \<and> np_random env' = np_random env"
  using assms
  by (simp add: step_def Let_def metadata_render_fps_def render_frame_def stepped_world_def
        same_physics_def)

lemma init_default: "init pygame0 None 500 (1 / 100) 1 1 1 False = Inr default_env"
  by (simp add: init_def default_env_def)

lemma step_body_spec:
  "step_body env p v a (1 / 24) =
     spec_advance (max_absolute_acceleration env) (max_absolute_velocity env)
       (max_absolute_location env) p v a"
  by (simp add: step_body_def spec_advance_def spec_axis_def Let_def vclip_def vadd_def vscale_def)

lemma maybe_render_Some:
  assumes "world env = Some w"
  shows "\<exists>env'. (if render_mode env = Some ''human''
                then map_sum id snd (render_frame env) else Inr env) = Inr env'
           \<and> world env' = Some w \<and> same_physics env' env \<and> np_random env' = np_random env"
proof (cases "render_mode env = Some ''human''")
  case True
  with render_frame_Some [OF assms] show ?thesis by auto
next
  case False
  with assms show ?thesis by (simp add: same_physics_def)
qed

lemma super_reset_fields:
  "max_absolute_location (super_reset R seed env) = max_absolute_location env"
  "same_physics (super_reset R seed env) env"
  "(case np_random (super_reset R seed env) of None \<Rightarrow> entropy | Some g \<Rightarrow> g) =
     reset_generator R entropy seed env"
  by (simp_all add: super_reset_def reset_generator_def same_physics_def split: option.splits)

lemma np_random_uniform_fields:
  "fst (np_random_uniform R entropy env) =
     fst (uniform R (case np_random env of None \<Rightarrow> entropy | Some g \<Rightarrow> g)
            (- max_absolute_location env) (max_absolute_location env))"
  "np_random (snd (np_random_uniform R entropy env)) =
     Some (snd (uniform R (case np_random env of None \<Rightarrow> entropy | Some g \<Rightarrow> g)
            (- max_absolute_location env) (max_absolute_location env)))"
  "max_absolute_location (snd (np_random_uniform R entropy env)) = max_absolute_location env"
  "same_physics (snd (np_random_uniform R entropy env)) env"
  by (simp_all add: np_random_uniform_def Let_def same_physics_def)

lemma same_physics_trans:
  "same_physics e1 e2 \<Longrightarrow> same_physics e2 e3 \<Longrightarrow> same_physics e1 e3"
  by (simp add: same_physics_def)

lemma reset_Some:
  "\<exists>env'. reset R entropy seed options env =
            Inr ((get_obs (reset_world R entropy seed options env),
                  get_info (reset_world R entropy seed options env)), env')
     \<and> world env' = Some (reset_world R entropy seed options env)
     \<and> same_physics env' env
     \<and> np_random env' =
         Some (snd (draw3 R (reset_generator R entropy seed env) (max_absolute_location env)))"
proof -
  define env1 where "env1 = super_reset R seed env"
  define d_agent where "d_agent = np_random_uniform R entropy env1"
  define d_target where "d_target = np_random_uniform R entropy (snd d_agent)"
  define d_hazard where "d_hazard = np_random_uniform R entropy (snd d_target)"
  define g where "g = reset_generator R entropy seed env"
  define L where "L = max_absolute_location env"
  define w where "w = reset_world R entropy seed options env"
  define env2 where "env2 = (snd d_hazard)\<lparr>world := Some w\<rparr>"
  define env3 where
    "env3 = (if show_observation_traces env2 then env2\<lparr>observations := []\<rparr> else env2)"
  have a: "fst d_agent = fst (draw1 R g L)" "np_random (snd d_agent) = Some (snd (draw1 R g L))"
    "max_absolute_location (snd d_agent) = L" "same_physics (snd d_agent) env"
    unfolding d_agent_def env1_def g_def L_def draw1_def
    by (simp_all add: np_random_uniform_fields super_reset_fields
          same_physics_trans [OF np_random_uniform_fields(4) super_reset_fields(2)])
  have t: "fst d_target = fst (draw2 R g L)" "np_random (snd d_target) = Some (snd (draw2 R g L))"
    "max_absolute_location (snd d_target) = L" "same_physics (snd d_target) env"
    unfolding d_target_def draw2_def
    by (simp_all add: np_random_uniform_fields a
          same_physics_trans [OF np_random_uniform_fields(4) a(4)])
  have h: "fst d_hazard = fst (draw3 R g L)" "np_random (snd d_hazard) = Some (snd (draw3 R g L))"
    "same_physics (snd d_hazard) env"
    unfolding d_hazard_def draw3_def
    by (simp_all add: np_random_uniform_fields t
          same_physics_trans [OF np_random_uniform_fields(4) t(4)])
  have w_eq: "w = \<lparr>agent_location = options_get options ''agent_location'' (fst d_agent),
                    agent_velocity = zeros,
                    target_location = options_get options ''target_location'' (fst d_target),
                    target_velocity = zeros,
                    hazard_location = options_get options ''hazard_location'' (fst d_hazard),
                    hazard_velocity = zeros\<rparr>"
    by (simp add: w_def reset_world_def a t h g_def L_def)
  have env3: "world env3 = Some w" "same_physics env3 env"
    "np_random env3 = Some (snd (draw3 R g L))"
    using h by (simp_all add: env3_def env2_def same_physics_def)
  from maybe_render_Some [OF env3(1)] obtain env4 where
    r: "(if render_mode env3 = Some ''human''
         then map_sum id snd (render_frame env3) else Inr env3) = Inr env4"
    and e4: "world env4 = Some w" "same_physics env4 env3" "np_random env4 = np_random env3"
    by blast
  have "reset R entropy seed options env = Inr ((get_obs w, get_info w), env4)"
    unfolding reset_def Let_def
    unfolding env1_def [symmetric] d_agent_def [symmetric] d_target_def [symmetric]
      d_hazard_def [symmetric] w_eq [symmetric] env2_def [symmetric] env3_def [symmetric]
    by (simp add: r)
  with e4 env3 show ?thesis
    unfolding w_def g_def L_def by (auto intro: same_physics_trans)
qed

lemma options_get_supplied:
  "options_get options key x = (case supplied options key of None \<Rightarrow> x | Some v \<Rightarrow> v)"
  by (simp add: options_get_def supplied_def split: option.splits)

lemma steps_same:
  assumes "world e1 = Some w" and "world e2 = Some w" and "same_physics e1 e2"
  shows "\<exists>ts e1' e2'. steps e1 as = Inr (ts, e1') \<and> steps e2 as = Inr (ts, e2')"
  using assms
proof (induction as arbitrary: e1 e2 w)
  case Nil
  show ?case by simp
next
  case (Cons a as)
  from step_Some [OF Cons.prems(1), of a] obtain e1a t1 where
    s1: "step e1 a = Inr (t1, e1a)"
    and t1: "t1 = \<lparr>observation = get_obs (stepped_world e1 w a), reward = - (1 / 24),
                 terminated = (linalg_norm (vsub (agent_location (stepped_world e1 w a))
                                 (target_location (stepped_world e1 w a))) < location_precision e1),
                 truncated = False, step_info = get_info (stepped_world e1 w a)\<rparr>"
    and w1: "world e1a = Some (stepped_world e1 w a)" and p1: "same_physics e1a e1"
    by blast
  from step_Some [OF Cons.prems(2), of a] obtain e2a t2 where
    s2: "step e2 a = Inr (t2, e2a)"
    and t2: "t2 = \<lparr>observation = get_obs (stepped_world e2 w a), reward = - (1 / 24),
                 terminated = (linalg_norm (vsub (agent_location (stepped_world e2 w a))
                                 (target_location (stepped_world e2 w a))) < location_precision e2),
                 truncated = False, step_info = get_info (stepped_world e2 w a)\<rparr>"
    and w2: "world e2a = Some (stepped_world e2 w a)" and p2: "same_physics e2a e2"
    by blast
  have sw: "stepped_world e1 w a = stepped_world e2 w a"
    using Cons.prems(3) by (rule stepped_world_cong)
  have lp: "location_precision e1 = location_precision e2"
    using Cons.prems(3) by (simp add: same_physics_def)
  have tt: "t1 = t2" by (simp add: t1 t2 sw lp)
  have pp: "same_physics e1a e2a"
    using p1 p2 Cons.prems(3) by (simp add: same_physics_def)
  from Cons.IH [OF w1 w2 [folded sw] pp] obtain ts e1' e2' where
    "steps e1a as = Inr (ts, e1')" "steps e2a as = Inr (ts, e2')"
    by blast
  with s1 s2 tt show ?case by simp
qed

lemma clip_abs_le: "0 \<le> b \<Longrightarrow> \<bar>clip x (- b) b\<bar> \<le> b"
  by (simp add: clip_def min_def max_def abs_le_iff)

lemma vclip_in_box: "0 \<le> b \<Longrightarrow> in_box b (vclip v (- b) b)"
  by (simp add: in_box_def vclip_def clip_abs_le)

lemma step_body_in_box:
  "0 \<le> max_absolute_location env \<Longrightarrow>
     in_box (max_absolute_location env) (fst (step_body env p v a dt))"
  "0 \<le> max_absolute_velocity env \<Longrightarrow>
     in_box (max_absolute_velocity env) (snd (step_body env p v a dt))"
  by (simp_all add: step_body_def Let_def vclip_in_box)

lemma stepped_world_in_bounds:
  assumes "0 \<le> max_absolute_location env" and "0 \<le> max_absolute_velocity env"
  shows "obs_in_bounds env (get_obs (stepped_world env w a))"
  using assms
  by (simp add: obs_in_bounds_def get_obs_def stepped_world_def step_body_in_box case_prod_beta)

lemma obs_in_bounds_cong:
  "same_physics e1 e2 \<Longrightarrow> obs_in_bounds e1 ob = obs_in_bounds e2 ob"
  by (simp add: obs_in_bounds_def same_physics_def)

lemma steps_in_bounds:
  assumes "world env = Some w"
    and "0 \<le> max_absolute_location env" and "0 \<le> max_absolute_velocity env"
  shows "\<exists>ts env'. steps env as = Inr (ts, env') \<and> length ts = length as \<and>
           (\<forall>t \<in> set ts. obs_in_bounds env (observation t))"
  using assms
proof (induction as arbitrary: env w)
  case Nil
  show ?case by simp
next
  case (Cons a as)
  from step_Some [OF Cons.prems(1), of a] obtain t env1 where
    s: "step env a = Inr (t, env1)"
    and ob: "observation t = get_obs (stepped_world env w a)"
    and w1: "world env1 = Some (stepped_world env w a)" and p: "same_physics env1 env"
    by force
  have b: "0 \<le> max_absolute_location env1" "0 \<le> max_absolute_velocity env1"
    using p Cons.prems(2,3) by (simp_all add: same_physics_def)
  from Cons.IH [OF w1 b] obtain ts env2 where
    r: "steps env1 as = Inr (ts, env2)" "length ts = length as"
      "\<forall>t \<in> set ts. obs_in_bounds env1 (observation t)"
    by blast
  have "obs_in_bounds env (observation t)"
    using Cons.prems(2,3) by (simp add: ob stepped_world_in_bounds)
  moreover have "\<forall>t \<in> set ts. obs_in_bounds env (observation t)"
    using r(3) obs_in_bounds_cong [OF p] by simp
  ultimately show ?case using s r(1,2) by simp
qed

lemma uniform_in_rangeD:
  assumes "uniform_in_range R" and "0 \<le> L"
  shows "in_box L (fst (uniform R g (- L) L))"
proof -
  have "- L \<le> L" using assms(2) by simp
  with assms(1) have
    "- L \<le> fst (fst (uniform R g (- L) L)) \<and> fst (fst (uniform R g (- L) L)) \<le> L \<and>
     - L \<le> snd (fst (uniform R g (- L) L)) \<and> snd (fst (uniform R g (- L) L)) \<le> L"
    unfolding uniform_in_range_def by blast
  then show ?thesis by (simp add: in_box_def abs_le_iff)
qed

lemma options_get_in_box:
  assumes "override_in_box env options key" and "in_box (max_absolute_location env) x"
  shows "in_box (max_absolute_location env) (options_get options key x)"
  using assms by (cases "supplied options key") (simp_all add: override_in_box_def options_get_supplied)

lemma sample_fraction:
  "0 \<le> real (n mod 8) / 8" "real (n mod 8) / 8 \<le> 1"
proof -
  show "0 \<le> real (n mod 8) / 8" by simp
  have "n mod 8 < 8" by simp
  then have "real (n mod 8) \<le> 8" by linarith
  then show "real (n mod 8) / 8 \<le> 1" by simp
qed

lemma scaled_in_interval:
  fixes lo hi f :: real
  assumes "lo \<le> hi" and "0 \<le> f" and "f \<le> 1"
  shows "lo \<le> lo + (hi - lo) * f" and "lo + (hi - lo) * f \<le> hi"
proof -
  have d: "0 \<le> hi - lo" using assms(1) by simp
  show "lo \<le> lo + (hi - lo) * f"
    using mult_nonneg_nonneg [OF d assms(2)] by simp
  have "(hi - lo) * f \<le> (hi - lo) * 1"
    using assms(3) d by (rule mult_left_mono)
  then show "lo + (hi - lo) * f \<le> hi" by simp
qed

lemma sample_rng_in_range: "uniform_in_range sample_rng"
  unfolding uniform_in_range_def
proof (intro allI impI)
  fix g :: nat and lo hi :: real
  assume le: "lo \<le> hi"
  have u: "fst (uniform sample_rng g lo hi) =
      (lo + (hi - lo) * (real (g mod 8) / 8), lo + (hi - lo) * (real ((3 * g + 1) mod 8) / 8))"
    by (simp add: sample_rng_def sample_uniform_def)
  show "lo \<le> fst (fst (uniform sample_rng g lo hi)) \<and>
        fst (fst (uniform sample_rng g lo hi)) \<le> hi \<and>
        lo \<le> snd (fst (uniform sample_rng g lo hi)) \<and>
        snd (fst (uniform sample_rng g lo hi)) \<le> hi"
    unfolding u fst_conv snd_conv
    using scaled_in_interval [OF le sample_fraction, of g]
      scaled_in_interval [OF le sample_fraction, of "3 * g + 1"]
    by blast
qed

lemma clip_contract: "\<bar>clip x lo hi - clip y lo hi\<bar> \<le> \<bar>x - y\<bar>"
  by (simp add: clip_def min_def max_def)

lemma linalg_norm_mono:
  assumes "\<bar>a\<bar> \<le> \<bar>c\<bar>" and "\<bar>b\<bar> \<le> \<bar>d\<bar>"
  shows "linalg_norm (a, b) \<le> linalg_norm (c, d)"
proof -
  have "a\<^sup>2 \<le> c\<^sup>2" "b\<^sup>2 \<le> d\<^sup>2"
    using assms by (simp_all add: abs_le_square_iff)
  then have "a\<^sup>2 + b\<^sup>2 \<le> c\<^sup>2 + d\<^sup>2" by simp
  then show ?thesis by (simp add: linalg_norm_def)
qed

lemma vclip_contract:
  "linalg_norm (vsub (vclip p lo hi) (vclip q lo hi)) \<le> linalg_norm (vsub p q)"
  unfolding vsub_def vclip_def fst_conv snd_conv
  by (rule linalg_norm_mono) (simp_all add: clip_contract)

lemma clip_id: "\<bar>x\<bar> \<le> b \<Longrightarrow> clip x (- b) b = x"
  by (simp add: clip_def min_def max_def abs_le_iff)

lemma vclip_id: "in_box b v \<Longrightarrow> vclip v (- b) b = v"
  by (simp add: in_box_def vclip_def clip_id)

lemma step_body_rest:
  assumes "0 \<le> max_absolute_acceleration env" and "0 \<le> max_absolute_velocity env"
  shows "step_body env p (0, 0) (0, 0) dt =
           (vclip p (- max_absolute_location env) (max_absolute_location env), (0, 0))"
  using assms
  by (simp add: step_body_def Let_def vclip_def vadd_def vscale_def clip_def)

lemma linalg_norm_axis: "linalg_norm (0, y) = \<bar>y\<bar>"
  by (simp add: linalg_norm_def)

lemma render_frame_human_env: "render_frame human_env = Inr (None, opened_env)"
  by (simp add: render_frame_def Let_def human_env_def opened_env_def example_env_def
        default_env_def pygame0_def pygame_init_def pygame_display_init_def
        pygame_display_set_mode_def)

subsection \<open>Claims\<close>

text \<open>
  C4. Whenever the bodies exist (a reset has been made), \<open>step\<close> returns, and the
  reward it returns is \<open>- 1/24\<close>, whatever the state, the action and the value of
  \<open>terminated\<close>. Before the first reset \<open>step\<close> raises \<^verbatim>\<open>AttributeError\<close> and
  returns nothing.
\<close>

theorem step_reward:
  assumes "world env = Some w"
  shows "\<exists>t env'. step env a = Inr (t, env') \<and> reward t = - (1 / 24)"
proof -
  from step_Some [OF assms, of a] obtain env' where
    "step env a =
       Inr (\<lparr>observation = get_obs (stepped_world env w a), reward = - (1 / 24),
             terminated = (linalg_norm (vsub (agent_location (stepped_world env w a))
                             (target_location (stepped_world env w a))) < location_precision env),
             truncated = False, step_info = get_info (stepped_world env w a)\<rparr>, env')"
    by blast
  then show ?thesis by simp
qed

theorem step_reward_witness:
  "world example_env = Some example_world \<and>
   (\<exists>t env'. step example_env zero_action = Inr (t, env') \<and> reward t = - (1 / 24))"
proof -
  have w: "world example_env = Some example_world"
    by (simp add: example_env_def)
  show ?thesis using w step_reward [OF w, of zero_action] by simp
qed

text \<open>
  C7. Whenever the bodies exist, \<open>step\<close> returns and the \<open>truncated\<close> flag it returns
  is false, for every state and every action: the flag is the constant of the source.
\<close>

theorem step_truncated:
  assumes "world env = Some w"
  shows "\<exists>t env'. step env a = Inr (t, env') \<and> truncated t = False"
proof -
  from step_Some [OF assms, of a] obtain env' where
    "step env a =
       Inr (\<lparr>observation = get_obs (stepped_world env w a), reward = - (1 / 24),
             terminated = (linalg_norm (vsub (agent_location (stepped_world env w a))
                             (target_location (stepped_world env w a))) < location_precision env),
             truncated = False, step_info = get_info (stepped_world env w a)\<rparr>, env')"
    by blast
  then show ?thesis by simp
qed

theorem step_truncated_witness:
  "world example_env = Some example_world \<and>
   (\<exists>t env'. step example_env ((1, - 1), (0, 2), (- 3, 0)) = Inr (t, env') \<and> truncated t = False)"
proof -
  have w: "world example_env = Some example_world"
    by (simp add: example_env_def)
  show ?thesis using w step_truncated [OF w, of "((1, - 1), (0, 2), (- 3, 0))"] by simp
qed

text \<open>
  C8. The constructor fails exactly when \<open>render_mode\<close> is none of \<^verbatim>\<open>None\<close>,
  \<^verbatim>\<open>"human"\<close> and \<^verbatim>\<open>"rgb_array"\<close>; every other argument is free, so for a render
  mode of the set it succeeds whatever the other arguments are.
\<close>

theorem init_fails_iff:
  "(\<exists>e. (init pg rm ws lp mal mav maa traces :: error + 'g env) = Inl e) \<longleftrightarrow>
     rm \<notin> {None, Some ''human'', Some ''rgb_array''}"
  by (auto simp: init_def metadata_render_modes_def split: option.splits)

text \<open>
  C9. \<open>close\<close> is a total function and closing twice leaves the same state as closing
  once. Closing an environment that has no window changes nothing; closing one that has
  a window leaves pygame and its display uninitialised and changes nothing else, so the
  second call, which finds the window attribute still set, quits pygame again to no
  effect.
\<close>

theorem close_idempotent:
  "close (close env) = close env \<and>
   (window env = None \<longrightarrow> close env = env) \<and>
   (window env \<noteq> None \<longrightarrow>
      close env = env\<lparr>pygame := \<lparr>initialised = False, display_initialised = False,
                                  display_surface = None\<rparr>\<rparr>)"
  by (simp add: close_def pygame_quit_def pygame_display_quit_def)

theorem close_idempotent_witness:
  "window default_env = None \<and> close default_env = default_env \<and>
   close (close default_env) = close default_env \<and>
   window opened_env \<noteq> None \<and>
   close opened_env = opened_env\<lparr>pygame := pygame0\<rparr> \<and>
   close (close opened_env) = close opened_env"
proof -
  have n: "window default_env = None"
    by (simp add: default_env_def)
  have o: "window opened_env \<noteq> None"
    by (simp add: opened_env_def)
  from close_idempotent [of default_env] n
  have a: "close default_env = default_env" "close (close default_env) = close default_env"
    by blast+
  from close_idempotent [of opened_env] o
  have b: "close opened_env = opened_env\<lparr>pygame := pygame0\<rparr>"
    "close (close opened_env) = close opened_env"
    unfolding pygame0_def by blast+
  from n o a b show ?thesis by blast
qed

text \<open>
  C6. For every seed, every options mapping and every earlier state, \<open>reset\<close> sets the
  three bodies' velocities to the zero vector and each body's position to the vector the
  options supply under that body's key when there is one (whatever the seed), and
  otherwise to the result of that body's
  \<^verbatim>\<open>uniform(-max_absolute_location, max_absolute_location, size=2)\<close> call on the
  generator: the first call for the agent, the second for the target, the third for the
  hazard. These are the bodies the environment holds after the call, and the observation
  returned shows them. That the call's result is uniformly distributed is numpy's
  contract.
\<close>

theorem reset_positions:
  "\<exists>i env'.
     reset R entropy seed options env =
       Inr ((((case supplied options ''agent_location'' of
                Some v \<Rightarrow> v
              | None \<Rightarrow> fst (draw1 R (reset_generator R entropy seed env) (max_absolute_location env))),
             (0, 0),
             (case supplied options ''target_location'' of
                Some v \<Rightarrow> v
              | None \<Rightarrow> fst (draw2 R (reset_generator R entropy seed env) (max_absolute_location env))),
             (0, 0),
             (case supplied options ''hazard_location'' of
                Some v \<Rightarrow> v
              | None \<Rightarrow> fst (draw3 R (reset_generator R entropy seed env) (max_absolute_location env))),
             (0, 0)), i), env') \<and>
     world env' =
       Some \<lparr>agent_location =
               (case supplied options ''agent_location'' of
                  Some v \<Rightarrow> v
                | None \<Rightarrow> fst (draw1 R (reset_generator R entropy seed env) (max_absolute_location env))),
             agent_velocity = (0, 0),
             target_location =
               (case supplied options ''target_location'' of
                  Some v \<Rightarrow> v
                | None \<Rightarrow> fst (draw2 R (reset_generator R entropy seed env) (max_absolute_location env))),
             target_velocity = (0, 0),
             hazard_location =
               (case supplied options ''hazard_location'' of
                  Some v \<Rightarrow> v
                | None \<Rightarrow> fst (draw3 R (reset_generator R entropy seed env) (max_absolute_location env))),
             hazard_velocity = (0, 0)\<rparr>"
proof -
  let ?w = "reset_world R entropy seed options env"
  obtain env' where
    r: "reset R entropy seed options env = Inr ((get_obs ?w, get_info ?w), env')"
    and w: "world env' = Some ?w"
    using reset_Some [of R entropy seed options env] by blast
  have ob: "get_obs ?w =
      ((case supplied options ''agent_location'' of
                Some v \<Rightarrow> v
              | None \<Rightarrow> fst (draw1 R (reset_generator R entropy seed env) (max_absolute_location env))),
             (0, 0),
             (case supplied options ''target_location'' of
                Some v \<Rightarrow> v
              | None \<Rightarrow> fst (draw2 R (reset_generator R entropy seed env) (max_absolute_location env))),
             (0, 0),
             (case supplied options ''hazard_location'' of
                Some v \<Rightarrow> v
              | None \<Rightarrow> fst (draw3 R (reset_generator R entropy seed env) (max_absolute_location env))),
             (0, 0))"
    by (simp add: get_obs_def reset_world_def options_get_supplied zeros_def
          split: option.splits)
  have wd: "?w =
       \<lparr>agent_location =
               (case supplied options ''agent_location'' of
                  Some v \<Rightarrow> v
                | None \<Rightarrow> fst (draw1 R (reset_generator R entropy seed env) (max_absolute_location env))),
             agent_velocity = (0, 0),
             target_location =
               (case supplied options ''target_location'' of
                  Some v \<Rightarrow> v
                | None \<Rightarrow> fst (draw2 R (reset_generator R entropy seed env) (max_absolute_location env))),
             target_velocity = (0, 0),
             hazard_location =
               (case supplied options ''hazard_location'' of
                  Some v \<Rightarrow> v
                | None \<Rightarrow> fst (draw3 R (reset_generator R entropy seed env) (max_absolute_location env))),
             hazard_velocity = (0, 0)\<rparr>"
    by (simp add: reset_world_def options_get_supplied zeros_def split: option.splits)
  show ?thesis
    apply (rule exI [of _ "get_info ?w"])
    apply (rule exI [of _ env'])
    apply (rule conjI)
     apply (simp only: r ob)
    apply (simp only: w)
    apply (subst wd)
    apply (rule refl)
    done
qed

text \<open>
  C2. With \<open>dt = 1/24\<close> the integrator \<^verbatim>\<open>_step\<close> computes, on each axis by itself,
  exactly what the specification words: the acceleration clipped to the acceleration
  bound, the velocity plus that times \<open>dt\<close> clipped to the velocity bound, the position
  plus the new velocity times \<open>dt\<close> clipped to the location bound; it returns the new
  position and velocity and nothing else, reading the environment's three bounds only.
  \<open>step\<close> applies it with \<open>dt = 1/24\<close> to each body with that body's own
  acceleration, and the bodies it leaves are those results.
\<close>

theorem step_body_refines_spec:
  "step_body env p v a (1 / 24) =
     spec_advance (max_absolute_acceleration env) (max_absolute_velocity env)
       (max_absolute_location env) p v a
   \<and> (world env = Some w \<longrightarrow>
        (\<exists>t env'. step env act = Inr (t, env') \<and>
           world env' =
             Some \<lparr>agent_location = fst (spec_advance (max_absolute_acceleration env)
                      (max_absolute_velocity env) (max_absolute_location env)
                      (agent_location w) (agent_velocity w) (fst act)),
                   agent_velocity = snd (spec_advance (max_absolute_acceleration env)
                      (max_absolute_velocity env) (max_absolute_location env)
                      (agent_location w) (agent_velocity w) (fst act)),
                   target_location = fst (spec_advance (max_absolute_acceleration env)
                      (max_absolute_velocity env) (max_absolute_location env)
                      (target_location w) (target_velocity w) (fst (snd act))),
                   target_velocity = snd (spec_advance (max_absolute_acceleration env)
                      (max_absolute_velocity env) (max_absolute_location env)
                      (target_location w) (target_velocity w) (fst (snd act))),
                   hazard_location = fst (spec_advance (max_absolute_acceleration env)
                      (max_absolute_velocity env) (max_absolute_location env)
                      (hazard_location w) (hazard_velocity w) (snd (snd act))),
                   hazard_velocity = snd (spec_advance (max_absolute_acceleration env)
                      (max_absolute_velocity env) (max_absolute_location env)
                      (hazard_location w) (hazard_velocity w) (snd (snd act)))\<rparr>))"
proof (intro conjI impI)
  show "step_body env p v a (1 / 24) =
     spec_advance (max_absolute_acceleration env) (max_absolute_velocity env)
       (max_absolute_location env) p v a"
    by (rule step_body_spec)
next
  assume w: "world env = Some w"
  from step_Some [OF w, of act] obtain t env' where
    "step env act = Inr (t, env')" "world env' = Some (stepped_world env w act)"
    by blast
  then show "\<exists>t env'. step env act = Inr (t, env') \<and>
           world env' =
             Some \<lparr>agent_location = fst (spec_advance (max_absolute_acceleration env)
                      (max_absolute_velocity env) (max_absolute_location env)
                      (agent_location w) (agent_velocity w) (fst act)),
                   agent_velocity = snd (spec_advance (max_absolute_acceleration env)
                      (max_absolute_velocity env) (max_absolute_location env)
                      (agent_location w) (agent_velocity w) (fst act)),
                   target_location = fst (spec_advance (max_absolute_acceleration env)
                      (max_absolute_velocity env) (max_absolute_location env)
                      (target_location w) (target_velocity w) (fst (snd act))),
                   target_velocity = snd (spec_advance (max_absolute_acceleration env)
                      (max_absolute_velocity env) (max_absolute_location env)
                      (target_location w) (target_velocity w) (fst (snd act))),
                   hazard_location = fst (spec_advance (max_absolute_acceleration env)
                      (max_absolute_velocity env) (max_absolute_location env)
                      (hazard_location w) (hazard_velocity w) (snd (snd act))),
                   hazard_velocity = snd (spec_advance (max_absolute_acceleration env)
                      (max_absolute_velocity env) (max_absolute_location env)
                      (hazard_location w) (hazard_velocity w) (snd (snd act)))\<rparr>"
    by (simp add: stepped_world_def step_body_spec)
qed

theorem step_body_refines_spec_witness:
  "step_body example_env (0, 1 / 200) (0, 0) (48, - 48) (1 / 24) =
     spec_advance 1 1 1 (0, 1 / 200) (0, 0) (48, - 48)
   \<and> spec_advance 1 1 1 (0, 1 / 200) (0, 0) (48, - 48) = ((1 / 576, 47 / 14400), (1 / 24, - 1 / 24))
   \<and> world example_env = Some example_world
   \<and> (\<exists>t env'. step example_env ((0, 0), (48, - 48), (0, 0)) = Inr (t, env') \<and>
         world env' =
           Some \<lparr>agent_location = (0, 0), agent_velocity = (0, 0),
                 target_location = (1 / 576, 47 / 14400), target_velocity = (1 / 24, - 1 / 24),
                 hazard_location = (1, 1), hazard_velocity = (0, 0)\<rparr>)"
proof -
  have w: "world example_env = Some example_world"
    by (simp add: example_env_def)
  have e: "max_absolute_acceleration example_env = 1" "max_absolute_velocity example_env = 1"
    "max_absolute_location example_env = 1"
    by (simp_all add: example_env_def default_env_def)
  have s1: "spec_advance 1 1 1 (0, 1 / 200) (0, 0) (48, - 48) = ((1 / 576, 47 / 14400), (1 / 24, - 1 / 24))"
    by (simp add: spec_advance_def spec_axis_def clip_def Let_def)
  have s0: "spec_advance 1 1 1 (0, 0) (0, 0) (0, 0) = ((0, 0), (0, 0))"
    "spec_advance 1 1 1 (1, 1) (0, 0) (0, 0) = ((1, 1), (0, 0))"
    by (simp_all add: spec_advance_def spec_axis_def clip_def Let_def)
  from step_body_refines_spec [of example_env "(0, 1 / 200)" "(0, 0)" "(48, - 48)"
      example_world "((0, 0), (48, - 48), (0, 0))"]
  show ?thesis
    by (simp add: w e s1 s0 example_world_def)
qed

text \<open>
  C5. Two runs that reset with the same seed and the same options and then apply the same
  actions return the same values: the same initial observation and info, and the same
  list of step results (observation, reward, terminated, truncated, info), and neither
  raises. The two runs may start from any two environments whose bounds and precision
  agree: what the environments held before (bodies, generator, window, trace, render
  mode) and the entropy available to them do not matter.
\<close>

theorem seeded_runs_identical:
  assumes "same_physics e1 e2"
  shows "\<exists>r. episode R entropy1 (Some s) options e1 as = Inr r \<and>
             episode R entropy2 (Some s) options e2 as = Inr r"
proof -
  have g: "reset_generator R entropy1 (Some s) e1 = reset_generator R entropy2 (Some s) e2"
    by (simp add: reset_generator_def)
  have L: "max_absolute_location e1 = max_absolute_location e2"
    using assms by (simp add: same_physics_def)
  have w: "reset_world R entropy1 (Some s) options e1 = reset_world R entropy2 (Some s) options e2"
    by (simp add: reset_world_def g L)
  from reset_Some [of R entropy1 "Some s" options e1] obtain e1a where
    r1: "reset R entropy1 (Some s) options e1 =
           Inr ((get_obs (reset_world R entropy1 (Some s) options e1),
                 get_info (reset_world R entropy1 (Some s) options e1)), e1a)"
    and w1: "world e1a = Some (reset_world R entropy1 (Some s) options e1)"
    and p1: "same_physics e1a e1"
    by blast
  from reset_Some [of R entropy2 "Some s" options e2] obtain e2a where
    r2: "reset R entropy2 (Some s) options e2 =
           Inr ((get_obs (reset_world R entropy2 (Some s) options e2),
                 get_info (reset_world R entropy2 (Some s) options e2)), e2a)"
    and w2: "world e2a = Some (reset_world R entropy2 (Some s) options e2)"
    and p2: "same_physics e2a e2"
    by blast
  have pp: "same_physics e1a e2a"
    using p1 p2 assms by (simp add: same_physics_def)
  from steps_same [OF w1 w2 [folded w] pp, of as] obtain ts e1' e2' where
    "steps e1a as = Inr (ts, e1')" "steps e2a as = Inr (ts, e2')"
    by blast
  with r1 r2 w have
    "episode R entropy1 (Some s) options e1 as =
       Inr ((get_obs (reset_world R entropy2 (Some s) options e2),
             get_info (reset_world R entropy2 (Some s) options e2)), ts)"
    "episode R entropy2 (Some s) options e2 as =
       Inr ((get_obs (reset_world R entropy2 (Some s) options e2),
             get_info (reset_world R entropy2 (Some s) options e2)), ts)"
    by (simp_all add: episode_def)
  then show ?thesis by blast
qed

theorem seeded_runs_identical_witness:
  "same_physics default_env (example_env\<lparr>render_mode := Some ''human'', np_random := Some 5\<rparr>) \<and>
   (\<exists>r. episode sample_rng 1 (Some 7) None default_env [zero_action, ((1, 0), (0, 1), (2, 2))] = Inr r \<and>
        episode sample_rng 2 (Some 7) None
          (example_env\<lparr>render_mode := Some ''human'', np_random := Some 5\<rparr>)
          [zero_action, ((1, 0), (0, 1), (2, 2))] = Inr r)"
proof -
  have p: "same_physics default_env
             (example_env\<lparr>render_mode := Some ''human'', np_random := Some 5\<rparr>)"
    by (simp add: same_physics_def example_env_def default_env_def)
  show ?thesis
    using p seeded_runs_identical [OF p, of sample_rng 1 7 None
        "[zero_action, ((1, 0), (0, 1), (2, 2))]" 2]
    by simp
qed

text \<open>
  C10. \<open>reset\<close> makes exactly three \<^verbatim>\<open>uniform\<close> calls on the generator, whatever
  the options: for any two option mappings, the generator it leaves is the one left by
  the third call, and the agent, the target and the hazard take the first, second and
  third draw unless overridden. The draws do not depend on the options, so a body that
  is not overridden gets the same position whether or not the others are.
\<close>

theorem reset_draws_three:
  "\<exists>ob1 i1 env1 ob2 i2 env2.
     reset R entropy seed options1 env = Inr ((ob1, i1), env1) \<and>
     reset R entropy seed options2 env = Inr ((ob2, i2), env2) \<and>
     np_random env1 =
       Some (snd (draw3 R (reset_generator R entropy seed env) (max_absolute_location env))) \<and>
     np_random env2 =
       Some (snd (draw3 R (reset_generator R entropy seed env) (max_absolute_location env))) \<and>
     obs_agent_location ob1 =
       (case supplied options1 ''agent_location'' of
          None \<Rightarrow> fst (draw1 R (reset_generator R entropy seed env) (max_absolute_location env))
        | Some v \<Rightarrow> v) \<and>
     obs_agent_location ob2 =
       (case supplied options2 ''agent_location'' of
          None \<Rightarrow> fst (draw1 R (reset_generator R entropy seed env) (max_absolute_location env))
        | Some v \<Rightarrow> v) \<and>
     obs_target_location ob1 =
       (case supplied options1 ''target_location'' of
          None \<Rightarrow> fst (draw2 R (reset_generator R entropy seed env) (max_absolute_location env))
        | Some v \<Rightarrow> v) \<and>
     obs_target_location ob2 =
       (case supplied options2 ''target_location'' of
          None \<Rightarrow> fst (draw2 R (reset_generator R entropy seed env) (max_absolute_location env))
        | Some v \<Rightarrow> v) \<and>
     obs_hazard_location ob1 =
       (case supplied options1 ''hazard_location'' of
          None \<Rightarrow> fst (draw3 R (reset_generator R entropy seed env) (max_absolute_location env))
        | Some v \<Rightarrow> v) \<and>
     obs_hazard_location ob2 =
       (case supplied options2 ''hazard_location'' of
          None \<Rightarrow> fst (draw3 R (reset_generator R entropy seed env) (max_absolute_location env))
        | Some v \<Rightarrow> v)"
proof -
  have one: "\<exists>env'. reset R entropy seed options env =
        Inr ((get_obs (reset_world R entropy seed options env),
              get_info (reset_world R entropy seed options env)), env') \<and>
      np_random env' =
        Some (snd (draw3 R (reset_generator R entropy seed env) (max_absolute_location env)))"
    for options
    using reset_Some [of R entropy seed options env] by blast
  have loc:
    "obs_agent_location (get_obs (reset_world R entropy seed options env)) =
       (case supplied options ''agent_location'' of
          None \<Rightarrow> fst (draw1 R (reset_generator R entropy seed env) (max_absolute_location env))
        | Some v \<Rightarrow> v)"
    "obs_target_location (get_obs (reset_world R entropy seed options env)) =
       (case supplied options ''target_location'' of
          None \<Rightarrow> fst (draw2 R (reset_generator R entropy seed env) (max_absolute_location env))
        | Some v \<Rightarrow> v)"
    "obs_hazard_location (get_obs (reset_world R entropy seed options env)) =
       (case supplied options ''hazard_location'' of
          None \<Rightarrow> fst (draw3 R (reset_generator R entropy seed env) (max_absolute_location env))
        | Some v \<Rightarrow> v)"
    for options
    by (simp_all add: get_obs_def reset_world_def options_get_supplied obs_agent_location_def
          obs_target_location_def obs_hazard_location_def)
  from one [of options1] obtain env1 where
    r1: "reset R entropy seed options1 env =
        Inr ((get_obs (reset_world R entropy seed options1 env),
              get_info (reset_world R entropy seed options1 env)), env1)"
    and g1: "np_random env1 =
        Some (snd (draw3 R (reset_generator R entropy seed env) (max_absolute_location env)))"
    by blast
  from one [of options2] obtain env2 where
    r2: "reset R entropy seed options2 env =
        Inr ((get_obs (reset_world R entropy seed options2 env),
              get_info (reset_world R entropy seed options2 env)), env2)"
    and g2: "np_random env2 =
        Some (snd (draw3 R (reset_generator R entropy seed env) (max_absolute_location env)))"
    by blast
  show ?thesis
    apply (rule exI [of _ "get_obs (reset_world R entropy seed options1 env)"])
    apply (rule exI [of _ "get_info (reset_world R entropy seed options1 env)"])
    apply (rule exI [of _ env1])
    apply (rule exI [of _ "get_obs (reset_world R entropy seed options2 env)"])
    apply (rule exI [of _ "get_info (reset_world R entropy seed options2 env)"])
    apply (rule exI [of _ env2])
    apply (simp only: r1 r2 g1 g2 loc simp_thms)
    done
qed

text \<open>
  C1, amended. For a valid configuration and a generator that keeps \<^verbatim>\<open>uniform\<close>'s
  range, an episode (any seed, any options, any earlier state, any actions) never raises,
  and: the observation returned after every step has every position within the location
  bound and every velocity within the velocity bound, also when reset was given positions
  outside the box; in the observation returned by \<open>reset\<close> the velocities are within
  the velocity bound, and a body's position is within the location bound provided the
  position supplied for that body, if any, is within the box.
\<close>

theorem bounds_after_reset_and_steps:
  assumes "valid_config env" and "uniform_in_range R"
  shows "\<exists>ob i ts.
     episode R entropy seed options env as = Inr ((ob, i), ts) \<and> length ts = length as \<and>
     (\<forall>t \<in> set ts. obs_in_bounds env (observation t)) \<and>
     in_box (max_absolute_velocity env) (obs_agent_velocity ob) \<and>
     in_box (max_absolute_velocity env) (obs_target_velocity ob) \<and>
     in_box (max_absolute_velocity env) (obs_hazard_velocity ob) \<and>
     (override_in_box env options ''agent_location'' \<longrightarrow>
        in_box (max_absolute_location env) (obs_agent_location ob)) \<and>
     (override_in_box env options ''target_location'' \<longrightarrow>
        in_box (max_absolute_location env) (obs_target_location ob)) \<and>
     (override_in_box env options ''hazard_location'' \<longrightarrow>
        in_box (max_absolute_location env) (obs_hazard_location ob))"
proof -
  let ?w = "reset_world R entropy seed options env"
  have L: "0 \<le> max_absolute_location env" and V: "0 \<le> max_absolute_velocity env"
    using assms(1) by (simp_all add: valid_config_def)
  from reset_Some [of R entropy seed options env] obtain env1 where
    r: "reset R entropy seed options env = Inr ((get_obs ?w, get_info ?w), env1)"
    and w1: "world env1 = Some ?w" and p: "same_physics env1 env"
    by blast
  have b: "0 \<le> max_absolute_location env1" "0 \<le> max_absolute_velocity env1"
    using p L V by (simp_all add: same_physics_def)
  from steps_in_bounds [OF w1 b, of as] obtain ts env2 where
    s: "steps env1 as = Inr (ts, env2)" "length ts = length as"
      "\<forall>t \<in> set ts. obs_in_bounds env1 (observation t)"
    by blast
  have e: "episode R entropy seed options env as = Inr ((get_obs ?w, get_info ?w), ts)"
    by (simp add: episode_def r s(1))
  have sb: "\<forall>t \<in> set ts. obs_in_bounds env (observation t)"
    using s(3) obs_in_bounds_cong [OF p] by simp
  have vel: "in_box (max_absolute_velocity env) (obs_agent_velocity (get_obs ?w))"
    "in_box (max_absolute_velocity env) (obs_target_velocity (get_obs ?w))"
    "in_box (max_absolute_velocity env) (obs_hazard_velocity (get_obs ?w))"
    using V by (simp_all add: get_obs_def reset_world_def zeros_def in_box_def
        obs_agent_velocity_def obs_target_velocity_def obs_hazard_velocity_def)
  have d: "in_box (max_absolute_location env)
             (fst (draw1 R (reset_generator R entropy seed env) (max_absolute_location env)))"
    "in_box (max_absolute_location env)
             (fst (draw2 R (reset_generator R entropy seed env) (max_absolute_location env)))"
    "in_box (max_absolute_location env)
             (fst (draw3 R (reset_generator R entropy seed env) (max_absolute_location env)))"
    unfolding draw1_def draw2_def draw3_def
    by (rule uniform_in_rangeD [OF assms(2) L])+
  have la: "override_in_box env options ''agent_location'' \<longrightarrow>
        in_box (max_absolute_location env) (obs_agent_location (get_obs ?w))"
    by (simp add: get_obs_def reset_world_def obs_agent_location_def options_get_in_box d)
  have lt: "override_in_box env options ''target_location'' \<longrightarrow>
        in_box (max_absolute_location env) (obs_target_location (get_obs ?w))"
    by (simp add: get_obs_def reset_world_def obs_target_location_def options_get_in_box d)
  have lh: "override_in_box env options ''hazard_location'' \<longrightarrow>
        in_box (max_absolute_location env) (obs_hazard_location (get_obs ?w))"
    by (simp add: get_obs_def reset_world_def obs_hazard_location_def options_get_in_box d)
  show ?thesis
    apply (rule exI [of _ "get_obs ?w"])
    apply (rule exI [of _ "get_info ?w"])
    apply (rule exI [of _ ts])
    apply (intro conjI)
    apply (rule e, rule s(2), rule sb, rule vel(1), rule vel(2), rule vel(3), rule la, rule lt, rule lh)
    done
qed


theorem bounds_after_reset_and_steps_witness:
  "valid_config default_env \<and> uniform_in_range sample_rng \<and>
   override_in_box default_env (Some [''agent_location'' \<mapsto> (1 / 2, - 1 / 2)]) ''agent_location'' \<and>
   override_in_box default_env (Some [''agent_location'' \<mapsto> (1 / 2, - 1 / 2)]) ''target_location'' \<and>
   override_in_box default_env (Some [''agent_location'' \<mapsto> (1 / 2, - 1 / 2)]) ''hazard_location'' \<and>
   (\<exists>ob i ts.
      episode sample_rng 0 (Some 7) (Some [''agent_location'' \<mapsto> (1 / 2, - 1 / 2)]) default_env
        [zero_action, ((1, 0), (0, 1), (2, 2))] = Inr ((ob, i), ts) \<and>
      length ts = 2 \<and>
      (\<forall>t \<in> set ts. obs_in_bounds default_env (observation t)) \<and>
      in_box 1 (obs_agent_velocity ob) \<and> in_box 1 (obs_target_velocity ob) \<and>
      in_box 1 (obs_hazard_velocity ob) \<and> in_box 1 (obs_agent_location ob) \<and>
      in_box 1 (obs_target_location ob) \<and> in_box 1 (obs_hazard_location ob))"
proof -
  have v: "valid_config default_env"
    by (simp add: valid_config_def default_env_def)
  have o: "override_in_box default_env (Some [''agent_location'' \<mapsto> (1 / 2, - 1 / 2)]) ''agent_location''"
    "override_in_box default_env (Some [''agent_location'' \<mapsto> (1 / 2, - 1 / 2)]) ''target_location''"
    "override_in_box default_env (Some [''agent_location'' \<mapsto> (1 / 2, - 1 / 2)]) ''hazard_location''"
    by (simp_all add: override_in_box_def supplied_def in_box_def default_env_def)
  have m: "max_absolute_location default_env = 1" "max_absolute_velocity default_env = 1"
    by (simp_all add: default_env_def)
  from bounds_after_reset_and_steps [OF v sample_rng_in_range, of 0 "Some 7"
      "Some [''agent_location'' \<mapsto> (1 / 2, - 1 / 2)]" "[zero_action, ((1, 0), (0, 1), (2, 2))]"]
  have "\<exists>ob i ts.
      episode sample_rng 0 (Some 7) (Some [''agent_location'' \<mapsto> (1 / 2, - 1 / 2)]) default_env
        [zero_action, ((1, 0), (0, 1), (2, 2))] = Inr ((ob, i), ts) \<and>
      length ts = 2 \<and>
      (\<forall>t \<in> set ts. obs_in_bounds default_env (observation t)) \<and>
      in_box 1 (obs_agent_velocity ob) \<and> in_box 1 (obs_target_velocity ob) \<and>
      in_box 1 (obs_hazard_velocity ob) \<and> in_box 1 (obs_agent_location ob) \<and>
      in_box 1 (obs_target_location ob) \<and> in_box 1 (obs_hazard_location ob)"
    unfolding m using o by (simp del: split_paired_Ex add: numeral_2_eq_2)
  with v o sample_rng_in_range show ?thesis by blast
qed

text \<open>
  C1 as stated fails: \<open>reset\<close> takes a supplied position as it is. With the default
  configuration (location bound 1) and the agent's position given as \<open>(5, 5)\<close>, the
  observation returned by \<open>reset\<close> has the agent at \<open>(5, 5)\<close>.
\<close>

theorem reset_override_out_of_bounds:
  "valid_config default_env \<and>
   map_option obs_agent_location
     (initial_observation
        (episode sample_rng 0 (Some 7) (Some [''agent_location'' \<mapsto> (5, 5)]) default_env []))
     = Some (5, 5) \<and>
   \<not> in_box (max_absolute_location default_env) (5, 5)"
proof -
  let ?o = "Some [''agent_location'' \<mapsto> (5, 5)]"
  let ?w = "reset_world sample_rng 0 (Some 7) ?o default_env"
  from reset_Some [of sample_rng 0 "Some 7" ?o default_env] obtain env1 where
    "reset sample_rng 0 (Some 7) ?o default_env = Inr ((get_obs ?w, get_info ?w), env1)"
    by blast
  then have "initial_observation (episode sample_rng 0 (Some 7) ?o default_env []) =
      Some (get_obs ?w)"
    by (simp add: episode_def initial_observation_def)
  moreover have "obs_agent_location (get_obs ?w) = (5, 5)"
    by (simp add: obs_agent_location_def get_obs_def reset_world_def options_get_def)
  moreover have "valid_config default_env" "\<not> in_box (max_absolute_location default_env) (5, 5)"
    by (simp_all add: valid_config_def default_env_def in_box_def)
  ultimately show ?thesis by simp
qed

text \<open>
  C3, amended. Whenever the bodies exist, \<open>step\<close> returns, and \<open>terminated\<close> is true
  exactly when the distance between the agent's and the target's positions in the
  returned observation, which holds all three bodies after their integration, is
  strictly below \<open>location_precision\<close>. For a valid configuration, agent and target at
  rest and a zero action: if their distance before the step is below the precision then
  \<open>terminated\<close> is true; if it is at least the precision and both positions lie within
  the location box then \<open>terminated\<close> is false.
\<close>

theorem terminated_iff_distance:
  assumes "world env = Some w"
  shows "\<exists>t env'.
     step env a = Inr (t, env') \<and>
     observation t = get_obs (stepped_world env w a) \<and>
     map_option get_obs (world env') = Some (observation t) \<and>
     (terminated t \<longleftrightarrow>
        linalg_norm (vsub (obs_agent_location (observation t))
          (obs_target_location (observation t))) < location_precision env) \<and>
     (valid_config env \<and> agent_velocity w = (0, 0) \<and> target_velocity w = (0, 0) \<and>
      a = zero_action \<longrightarrow>
        (linalg_norm (vsub (agent_location w) (target_location w)) < location_precision env
           \<longrightarrow> terminated t) \<and>
        (in_box (max_absolute_location env) (agent_location w) \<and>
         in_box (max_absolute_location env) (target_location w) \<and>
         location_precision env \<le> linalg_norm (vsub (agent_location w) (target_location w))
           \<longrightarrow> \<not> terminated t))"
proof -
  let ?w = "stepped_world env w a"
  let ?L = "max_absolute_location env"
  from step_Some [OF assms, of a] obtain t env' where
    s: "step env a = Inr (t, env')"
    and ob: "observation t = get_obs ?w"
    and tm: "terminated t \<longleftrightarrow>
        linalg_norm (vsub (agent_location ?w) (target_location ?w)) < location_precision env"
    and w': "world env' = Some ?w"
    by force
  have pos: "obs_agent_location (get_obs ?w) = agent_location ?w"
    "obs_target_location (get_obs ?w) = target_location ?w"
    by (simp_all add: obs_agent_location_def obs_target_location_def get_obs_def)
  have rest: "(linalg_norm (vsub (agent_location w) (target_location w)) < location_precision env
           \<longrightarrow> terminated t) \<and>
        (in_box ?L (agent_location w) \<and> in_box ?L (target_location w) \<and>
         location_precision env \<le> linalg_norm (vsub (agent_location w) (target_location w))
           \<longrightarrow> \<not> terminated t)"
    if v: "valid_config env" and r: "agent_velocity w = (0, 0)" "target_velocity w = (0, 0)"
      and z: "a = zero_action"
  proof -
    have b: "0 \<le> max_absolute_acceleration env" "0 \<le> max_absolute_velocity env"
      using v by (simp_all add: valid_config_def)
    have al: "agent_location ?w = vclip (agent_location w) (- ?L) ?L"
      and tl: "target_location ?w = vclip (target_location w) (- ?L) ?L"
      by (simp_all add: stepped_world_def r z zero_action_def step_body_rest [OF b])
    show ?thesis
    proof (intro conjI impI)
      assume "linalg_norm (vsub (agent_location w) (target_location w)) < location_precision env"
      with vclip_contract [of "agent_location w" "- ?L" ?L "target_location w"]
      show "terminated t" by (simp add: tm al tl)
    next
      assume "in_box ?L (agent_location w) \<and> in_box ?L (target_location w) \<and>
         location_precision env \<le> linalg_norm (vsub (agent_location w) (target_location w))"
      then show "\<not> terminated t" by (simp add: tm al tl vclip_id)
    qed
  qed
  show ?thesis
    apply (rule exI [of _ t])
    apply (rule exI [of _ env'])
    using s ob w' tm rest by (simp add: pos)
qed
theorem terminated_iff_distance_witness:
  "world example_env = Some example_world \<and> valid_config example_env \<and>
   agent_velocity example_world = (0, 0) \<and> target_velocity example_world = (0, 0) \<and>
   linalg_norm (vsub (agent_location example_world) (target_location example_world))
     < location_precision example_env \<and>
   (\<exists>t env'. step example_env zero_action = Inr (t, env') \<and> terminated t) \<and>
   world far_env = Some far_world \<and> valid_config far_env \<and>
   agent_velocity far_world = (0, 0) \<and> target_velocity far_world = (0, 0) \<and>
   in_box (max_absolute_location far_env) (agent_location far_world) \<and>
   in_box (max_absolute_location far_env) (target_location far_world) \<and>
   location_precision far_env
     \<le> linalg_norm (vsub (agent_location far_world) (target_location far_world)) \<and>
   (\<exists>t env'. step far_env zero_action = Inr (t, env') \<and> \<not> terminated t)"
proof -
  have w1: "world example_env = Some example_world"
    and v1: "valid_config example_env"
    and r1: "agent_velocity example_world = (0, 0)" "target_velocity example_world = (0, 0)"
    by (simp_all add: example_env_def example_world_def valid_config_def default_env_def)
  have d1: "linalg_norm (vsub (agent_location example_world) (target_location example_world))
      < location_precision example_env"
    by (simp add: example_world_def example_env_def default_env_def vsub_def linalg_norm_axis)
  have w2: "world far_env = Some far_world"
    and v2: "valid_config far_env"
    and r2: "agent_velocity far_world = (0, 0)" "target_velocity far_world = (0, 0)"
    by (simp_all add: far_env_def far_world_def valid_config_def default_env_def)
  have b2: "in_box (max_absolute_location far_env) (agent_location far_world)"
    "in_box (max_absolute_location far_env) (target_location far_world)"
    by (simp_all add: far_env_def far_world_def default_env_def in_box_def)
  have d2: "location_precision far_env
      \<le> linalg_norm (vsub (agent_location far_world) (target_location far_world))"
    by (simp add: far_world_def far_env_def default_env_def vsub_def linalg_norm_axis)
  from terminated_iff_distance [OF w1, of zero_action] v1 r1 d1
  have e1: "\<exists>t env'. step example_env zero_action = Inr (t, env') \<and> terminated t"
    by blast
  from terminated_iff_distance [OF w2, of zero_action] v2 r2 b2 d2
  have e2: "\<exists>t env'. step far_env zero_action = Inr (t, env') \<and> \<not> terminated t"
    by blast
  from w1 v1 r1 d1 e1 w2 v2 r2 b2 d2 e2 show ?thesis by blast
qed
text \<open>
  C3 as stated fails outside the box, since the step clips both positions before the
  distance is taken. With the default configuration, reset with the agent at
  \<open>(2, 2)\<close> and the target at \<open>(2, 5)\<close>, both at rest at distance
  \<open>3 = location_precision + 2.99\<close>: the zero action moves both to \<open>(1, 1)\<close> and
  \<open>step\<close> returns \<open>terminated = True\<close>.
\<close>

theorem clipped_positions_terminate:
  "linalg_norm (vsub (2, 2) (2, 5)) = location_precision default_env + 299 / 100 \<and>
   terminated_flags
     (episode sample_rng 0 (Some 7)
        (Some [''agent_location'' \<mapsto> (2, 2), ''target_location'' \<mapsto> (2, 5)])
        default_env [zero_action]) = Some [True]"
proof -
  let ?o = "Some [''agent_location'' \<mapsto> (2, 2), ''target_location'' \<mapsto> (2, 5)]"
  let ?w = "reset_world sample_rng 0 (Some 7) ?o default_env"
  have dist: "linalg_norm (vsub (2, 2) (2, 5)) = location_precision default_env + 299 / 100"
    by (simp add: vsub_def linalg_norm_axis default_env_def)
  from reset_Some [of sample_rng 0 "Some 7" ?o default_env] obtain env1 where
    r: "reset sample_rng 0 (Some 7) ?o default_env = Inr ((get_obs ?w, get_info ?w), env1)"
    and w1: "world env1 = Some ?w" and p: "same_physics env1 default_env"
    by blast
  from step_Some [OF w1, of zero_action] obtain t env2 where
    s: "step env1 zero_action = Inr (t, env2)"
    and tm: "terminated t \<longleftrightarrow>
        linalg_norm (vsub (agent_location (stepped_world env1 ?w zero_action))
          (target_location (stepped_world env1 ?w zero_action))) < location_precision env1"
    by force
  have sw: "stepped_world env1 ?w zero_action = stepped_world default_env ?w zero_action"
    using p by (rule stepped_world_cong)
  have lp: "location_precision env1 = 1 / 100"
    using p by (simp add: same_physics_def default_env_def)
  have b: "0 \<le> max_absolute_acceleration default_env" "0 \<le> max_absolute_velocity default_env"
    by (simp_all add: default_env_def)
  have m: "max_absolute_location default_env = 1"
    by (simp add: default_env_def)
  have w: "agent_location ?w = (2, 2)" "agent_velocity ?w = (0, 0)"
    "target_location ?w = (2, 5)" "target_velocity ?w = (0, 0)"
    by (simp_all add: reset_world_def options_get_def zeros_def)
  have al: "agent_location (stepped_world default_env ?w zero_action) = (1, 1)"
    and tl: "target_location (stepped_world default_env ?w zero_action) = (1, 1)"
    by (simp_all add: stepped_world_def w zero_action_def step_body_rest [OF b] m
          vclip_def clip_def)
  have "terminated t"
    by (simp add: tm sw lp al tl vsub_def linalg_norm_def)
  with r s have "terminated_flags (episode sample_rng 0 (Some 7) ?o default_env [zero_action])
      = Some [True]"
    by (simp add: episode_def terminated_flags_def)
  with dist show ?thesis by simp
qed

end
